theory Spec2Isabelle
  imports Main "HOL-Library.AList"
begin

section \<open>Data model of \<^verbatim>\<open>src/app/page.tsx\<close>\<close>

text \<open>
  The union type \<^verbatim>\<open>ShaderPreset\<close> (lines 14--32) is a datatype with one constructor per
  string literal, in the order of the source.
\<close>

datatype ShaderPreset =
    blink | duotone | sinewave | rgbGlitch | hueShift | shine | spring
  | slitScanTransition | halftone | warpTransition | rainbow | pixelate | tritone
  | glitch | rgbShift | uvGradient | focusTransition | pixelateTransition

text \<open>
  The interface \<^verbatim>\<open>Pokemon\<close> (lines 55--69). The fields \<^verbatim>\<open>id\<close> and \<^verbatim>\<open>name\<close> are written
  \<open>pid\<close> and \<open>pname\<close>: \<open>id\<close> is the identity function of HOL, and the three interfaces
  of the file all have a field \<^verbatim>\<open>name\<close>. The entries of \<^verbatim>\<open>types\<close> and \<^verbatim>\<open>moves\<close> are the
  anonymous object types \<^verbatim>\<open>{name, url}\<close> and \<^verbatim>\<open>{name, type, url}\<close>. The \<^verbatim>\<open>id\<close> is a JavaScript
  number that holds an integer (the data model of the specification: "id: integer").
\<close>

record TypeRef =
  tname :: string
  turl :: string

record Move =
  mname :: string
  mtype :: string
  murl :: string

record Pokemon =
  pid :: int
  pname :: string
  types :: "TypeRef list"
  moves :: "Move list"
  sprite :: string
  shinySprite :: string

section \<open>The merge of a fetched page into the store (lines 271--278)\<close>

text \<open>
  \<^verbatim>\<open>new Map(entries)\<close> inserts the entries from left to right. A JavaScript \<^verbatim>\<open>Map\<close> keeps
  its keys in the order of their first insertion; setting a key that is present replaces
  its value in place. That is \<^const>\<open>AList.update\<close> on an association list, so the map
  is the association list in iteration order.
\<close>

definition new_Map :: "('k \<times> 'v) list \<Rightarrow> ('k \<times> 'v) list" where
  "new_Map entries = foldl (\<lambda>m (k, v). AList.update k v m) [] entries"

text \<open>\<^verbatim>\<open>Array.from(m.values())\<close>: the values in iteration order.\<close>

definition values_of :: "('k \<times> 'v) list \<Rightarrow> 'v list" where
  "values_of m = map snd m"

text \<open>
  The updater passed to \<^verbatim>\<open>setPokemonData\<close>:
  \<^verbatim>\<open>
  (prevData) => {
    const newData = [...prevData, ...pokemonDetails];
    const uniqueData = Array.from(
      new Map(newData.map((item) => [item.id, item])).values());
    return uniqueData.sort((a, b) => a.id - b.id);
  }
  \<close>
  The specification calls it \<open>merge(existing, incoming)\<close>; \<open>entries\<close> is the array
  \<^verbatim>\<open>newData.map((item) => [item.id, item])\<close>. \<^verbatim>\<open>Array.prototype.sort\<close> with
  the comparator \<^verbatim>\<open>a.id - b.id\<close> is a stable ascending sort on the id; \<^const>\<open>sort_key\<close> is
  a stable insertion sort.
\<close>

definition entries :: "Pokemon list \<Rightarrow> (int \<times> Pokemon) list" where
  "entries newData = map (\<lambda>item. (pid item, item)) newData"

definition merge :: "Pokemon list \<Rightarrow> Pokemon list \<Rightarrow> Pokemon list" where
  "merge prevData pokemonDetails =
     (let newData = prevData @ pokemonDetails;
          uniqueData = values_of (new_Map (entries newData))
      in sort_key pid uniqueData)"

section \<open>The remote API\<close>

text \<open>
  The component reads four kinds of resources with \<^verbatim>\<open>fetch\<close> and \<^verbatim>\<open>response.json()\<close>. The
  records below hold the properties of each payload that the code reads:
  \<^item> an item of \<^verbatim>\<open>data.results\<close> of the list resource (only \<^verbatim>\<open>url\<close> is read);
  \<^item> \<^verbatim>\<open>details\<close>: \<^verbatim>\<open>id\<close>, \<^verbatim>\<open>name\<close>, \<^verbatim>\<open>types[i].type.{name, url}\<close>, \<^verbatim>\<open>moves[i].move.{name, url}\<close>,
    \<^verbatim>\<open>sprites.front_default\<close>, \<^verbatim>\<open>sprites.front_shiny\<close>;
  \<^item> \<^verbatim>\<open>moveDetails\<close>: \<^verbatim>\<open>name\<close> and \<^verbatim>\<open>type.name\<close>;
  \<^item> the type resource: \<^verbatim>\<open>name\<close> and the six lists of \<^verbatim>\<open>damage_relations\<close>.
\<close>

record Summary =
  sname :: string
  surl :: string

record MoveRef =
  move_name :: string
  move_url :: string

record Details =
  details_id :: int
  details_name :: string
  details_types :: "TypeRef list"
  details_moves :: "MoveRef list"
  front_default :: string
  front_shiny :: string

record MoveDetails =
  moveDetails_name :: string
  moveDetails_type_name :: string

record TypeData =
  data_name :: string
  double_damage_from :: "TypeRef list"
  double_damage_to :: "TypeRef list"
  half_damage_from :: "TypeRef list"
  half_damage_to :: "TypeRef list"
  no_damage_from :: "TypeRef list"
  no_damage_to :: "TypeRef list"

text \<open>
  A request either yields its payload or fails: \<open>None\<close> stands for an awaited \<^verbatim>\<open>fetch\<close> or
  \<^verbatim>\<open>json()\<close> that rejects, which throws at the \<^verbatim>\<open>await\<close>. The list resource is addressed by
  the \<^verbatim>\<open>limit\<close> and \<^verbatim>\<open>offset\<close> of its query string, the others by their URL.
\<close>

record Api =
  list_resource :: "int \<Rightarrow> int \<Rightarrow> Summary list option"
  pokemon_resource :: "string \<Rightarrow> Details option"
  move_resource :: "string \<Rightarrow> MoveDetails option"
  type_resource :: "string \<Rightarrow> TypeData option"

text \<open>
  \<^verbatim>\<open>await Promise.all(promises)\<close> yields the array of all results, in order, when every
  promise fulfils, and throws when one of them rejects.
\<close>

definition Promise_all :: "'a option list \<Rightarrow> 'a list option" where
  "Promise_all ps = those ps"

section \<open>The state of \<^verbatim>\<open>Component\<close> (lines 217--222)\<close>

record DamageRelations =
  doubleDamageFrom :: "string list"
  doubleDamageTo :: "string list"
  halfDamageFrom :: "string list"
  halfDamageTo :: "string list"
  noDamageFrom :: "string list"
  noDamageTo :: "string list"

text \<open>The interface \<^verbatim>\<open>Type\<close> (lines 71--81); its field \<^verbatim>\<open>name\<close> is written \<open>type_name\<close>.\<close>

record Type =
  type_name :: string
  damageRelations :: DamageRelations

record State =
  pokemonData :: "Pokemon list"
  loading :: bool
  error :: "string option"
  selectedType :: "Type option"
  hasMore :: bool
  page :: int

text \<open>The initial values of the \<^verbatim>\<open>useState\<close> hooks.\<close>

definition initial_state :: State where
  "initial_state =
     \<lparr>pokemonData = [], loading = False, error = None, selectedType = None,
      hasMore = True, page = 1\<rparr>"

section \<open>\<^verbatim>\<open>fetchPokemon\<close> (lines 226--284)\<close>

text \<open>
  The inner \<^verbatim>\<open>async\<close> function of lines 246--254: one move of a Pokemon is resolved by a
  request to its URL.
\<close>

definition resolve_move :: "Api \<Rightarrow> MoveRef \<Rightarrow> Move option" where
  "resolve_move api move =
     (case move_resource api (move_url move) of
        None \<Rightarrow> None
      | Some moveDetails \<Rightarrow>
          Some \<lparr>mname = moveDetails_name moveDetails,
                mtype = moveDetails_type_name moveDetails,
                murl = move_url move\<rparr>)"

text \<open>
  The outer \<^verbatim>\<open>async\<close> function of lines 240--269: the details of one summary item, and the
  first three of its moves (\<^verbatim>\<open>details.moves.slice(0, 3)\<close>).
\<close>

definition resolve_pokemon :: "Api \<Rightarrow> Summary \<Rightarrow> Pokemon option" where
  "resolve_pokemon api pokemon =
     (case pokemon_resource api (surl pokemon) of
        None \<Rightarrow> None
      | Some details \<Rightarrow>
          (case Promise_all (map (resolve_move api) (take 3 (details_moves details))) of
             None \<Rightarrow> None
           | Some moves' \<Rightarrow>
               Some \<lparr>pid = details_id details,
                     pname = details_name details,
                     types = details_types details,
                     moves = moves',
                     sprite = front_default details,
                     shinySprite = front_shiny details\<rparr>))"

text \<open>
  The message of line 281; the \<open>e\<close> with an acute accent of its third word is the code
  unit \<open>0xE9\<close>.
\<close>

definition fetch_error_message :: string where
  "fetch_error_message =
     ''Failed to fetch Pok'' @ [CHR 0xE9] @ ''mon data. Please try again later.''"

text \<open>
  \<^verbatim>\<open>fetchPokemon\<close> runs \<^verbatim>\<open>setLoading(true)\<close> and then suspends at its first \<^verbatim>\<open>await\<close>:
  \<open>fetchPokemon_start\<close> is the state while the fetch is outstanding.
\<close>

definition fetchPokemon_start :: "State \<Rightarrow> State" where
  "fetchPokemon_start s = s\<lparr>loading := True\<rparr>"

text \<open>
  The \<^verbatim>\<open>catch\<close> block (lines 280--283).
\<close>

definition fetchPokemon_catch :: "State \<Rightarrow> State" where
  "fetchPokemon_catch s = s\<lparr>error := Some fetch_error_message, loading := False\<rparr>"

text \<open>
  The rest of the \<^verbatim>\<open>try\<close> block, once the responses are there. Every failed request
  leads to the \<^verbatim>\<open>catch\<close> block. On an empty list the function returns after
  \<^verbatim>\<open>setHasMore(false)\<close> (lines 235--238), without reaching a \<^verbatim>\<open>setLoading(false)\<close>.
\<close>

definition fetchPokemon_finish :: "Api \<Rightarrow> State \<Rightarrow> State" where
  "fetchPokemon_finish api s =
     (let limit = 20;
          offset = (page s - 1) * limit
      in case list_resource api limit offset of
           None \<Rightarrow> fetchPokemon_catch s
         | Some results \<Rightarrow>
             if length results = 0 then s\<lparr>hasMore := False\<rparr>
             else
               (case Promise_all (map (resolve_pokemon api) results) of
                  None \<Rightarrow> fetchPokemon_catch s
                | Some pokemonDetails \<Rightarrow>
                    s\<lparr>pokemonData := merge (pokemonData s) pokemonDetails,
                      loading := False\<rparr>))"

definition fetchPokemon :: "Api \<Rightarrow> State \<Rightarrow> State" where
  "fetchPokemon api s = fetchPokemon_finish api (fetchPokemon_start s)"

text \<open>
  The requests of one page fetch, and whether one of them fails: the request of the list,
  one request per item of the list, and one request for each of the first three moves of
  every item whose details arrived.
\<close>

definition sub_request_fails :: "Api \<Rightarrow> int \<Rightarrow> bool" where
  "sub_request_fails api p =
     (case list_resource api 20 ((p - 1) * 20) of
        None \<Rightarrow> True
      | Some results \<Rightarrow>
          \<exists>pokemon \<in> set results.
            (case pokemon_resource api (surl pokemon) of
               None \<Rightarrow> True
             | Some details \<Rightarrow>
                 \<exists>move \<in> set (take 3 (details_moves details)).
                   move_resource api (move_url move) = None))"

section \<open>The type details and \<^verbatim>\<open>TypeModal\<close>\<close>

text \<open>
  \<^verbatim>\<open>fetchTypeDetails\<close> (lines 309--340): each of the six lists is mapped to the names of its
  entries; a failed request is caught and gives \<^verbatim>\<open>null\<close>.
\<close>

definition fetchTypeDetails :: "Api \<Rightarrow> string \<Rightarrow> Type option" where
  "fetchTypeDetails api url =
     (case type_resource api url of
        None \<Rightarrow> None
      | Some data \<Rightarrow>
          Some \<lparr>type_name = data_name data,
                damageRelations =
                  \<lparr>doubleDamageFrom = map tname (double_damage_from data),
                   doubleDamageTo = map tname (double_damage_to data),
                   halfDamageFrom = map tname (half_damage_from data),
                   halfDamageTo = map tname (half_damage_to data),
                   noDamageFrom = map tname (no_damage_from data),
                   noDamageTo = map tname (no_damage_to data)\<rparr>\<rparr>)"

text \<open>\<^verbatim>\<open>handleTypeClick\<close> (lines 342--347).\<close>

definition handleTypeClick :: "Api \<Rightarrow> string \<Rightarrow> State \<Rightarrow> State" where
  "handleTypeClick api typeUrl s =
     (case fetchTypeDetails api typeUrl of
        Some typeDetails \<Rightarrow> s\<lparr>selectedType := Some typeDetails\<rparr>
      | None \<Rightarrow> s)"

text \<open>\<^verbatim>\<open>Array.prototype.join\<close> on an array of strings.\<close>

fun join :: "string \<Rightarrow> string list \<Rightarrow> string" where
  "join sep [] = []"
| "join sep [x] = x"
| "join sep (x # y # ys) = x @ sep @ join sep (y # ys)"

text \<open>\<^verbatim>\<open>a || b\<close> on strings: the empty string is the one falsy string.\<close>

definition or_else :: "string \<Rightarrow> string \<Rightarrow> string" where
  "or_else a b = (if a = [] then b else a)"

text \<open>
  The text of \<^verbatim>\<open>names.join(", ") || "None"\<close>, by cases on the list: the joined text is
  empty for the empty list and for the list of one empty name.
\<close>

definition shown :: "string list \<Rightarrow> string" where
  "shown names = (if names = [] \<or> names = [[]] then ''None'' else join '', '' names)"

text \<open>
  What \<^verbatim>\<open>TypeModal\<close> (lines 83--133) renders: nothing for \<^verbatim>\<open>null\<close>, and otherwise the
  heading, the sections in the order of the markup (the text of the \<^verbatim>\<open>h3\<close> and of the
  \<^verbatim>\<open>p\<close> of each) and the button.
\<close>

record Modal =
  heading :: string
  sections :: "(string \<times> string) list"
  button :: string

definition TypeModal :: "Type option \<Rightarrow> Modal option" where
  "TypeModal ty =
     (case ty of
        None \<Rightarrow> None
      | Some t \<Rightarrow>
          Some \<lparr>heading = type_name t,
                sections =
                  [(''Weaknesses:'',
                      or_else (join '', '' (doubleDamageFrom (damageRelations t))) ''None''),
                   (''Strengths:'',
                      or_else (join '', '' (doubleDamageTo (damageRelations t))) ''None''),
                   (''Resistances:'',
                      or_else (join '', '' (halfDamageFrom (damageRelations t))) ''None''),
                   (''Not very effective against:'',
                      or_else (join '', '' (halfDamageTo (damageRelations t))) ''None'')],
                button = ''Close''\<rparr>)"

section \<open>What \<^verbatim>\<open>Component\<close> renders (lines 349--410)\<close>

text \<open>
  The three \<^verbatim>\<open>return\<close> statements: the full-screen loading indicator when \<^verbatim>\<open>loading\<close>
  holds, the error text when \<^verbatim>\<open>error\<close> is truthy, and otherwise the grid: one card per
  entry of \<^verbatim>\<open>pokemonData\<close>, the paragraph of line 403 under the condition of line 401, and
  the modal.
\<close>

record GridView =
  cards :: "Pokemon list"
  loading_more :: bool
  modal :: "Modal option"

datatype View = LoadingScreen | ErrorScreen string | Grid GridView

definition render :: "State \<Rightarrow> View" where
  "render s =
     (if loading s then LoadingScreen
      else case error s of
             Some e \<Rightarrow>
               if e \<noteq> [] then ErrorScreen e
               else Grid \<lparr>cards = pokemonData s, loading_more = loading s,
                           modal = TypeModal (selectedType s)\<rparr>
           | None \<Rightarrow>
               Grid \<lparr>cards = pokemonData s, loading_more = loading s,
                      modal = TypeModal (selectedType s)\<rparr>)"

text \<open>The cards that are on the screen, and whether a loading indicator is.\<close>

definition cards_shown :: "View \<Rightarrow> Pokemon list" where
  "cards_shown v = (case v of Grid g \<Rightarrow> cards g | _ \<Rightarrow> [])"

definition loading_indicator_shown :: "View \<Rightarrow> bool" where
  "loading_indicator_shown v =
     (case v of LoadingScreen \<Rightarrow> True | ErrorScreen e \<Rightarrow> False | Grid g \<Rightarrow> loading_more g)"

section \<open>The scroll sentinel (lines 286--307)\<close>

text \<open>
  \<^verbatim>\<open>lastPokemonElementRef\<close> is the \<^verbatim>\<open>ref\<close> of the last card of the grid, so an element is
  observed only while the grid is rendered and has a card.
\<close>

definition sentinel_observed :: "State \<Rightarrow> bool" where
  "sentinel_observed s = (case render s of Grid g \<Rightarrow> cards g \<noteq> [] | _ \<Rightarrow> False)"

text \<open>
  The callback of the \<^verbatim>\<open>IntersectionObserver\<close> (lines 298--303) for an entry that
  intersects: \<^verbatim>\<open>setPage(prevPage + 1)\<close> if \<^verbatim>\<open>hasMore\<close>.
\<close>

definition intersect :: "State \<Rightarrow> State" where
  "intersect s =
     (if sentinel_observed s \<and> hasMore s then s\<lparr>page := page s + 1\<rparr> else s)"

text \<open>
  The effect of lines 286--288 runs \<^verbatim>\<open>fetchPokemon\<close> whenever its identity changes, which
  is whenever \<^verbatim>\<open>page\<close> changes (the dependency of the \<^verbatim>\<open>useCallback\<close> of line 284). An
  intersection of the sentinel followed by the effect, up to the end of the fetch:
\<close>

definition on_intersect :: "Api \<Rightarrow> State \<Rightarrow> State" where
  "on_intersect api s =
     (let s' = intersect s in if page s' \<noteq> page s then fetchPokemon api s' else s')"

section \<open>The effect of a move on a card (lines 413--452 and 519--532)\<close>

text \<open>The object literal \<^verbatim>\<open>moveTypeEffects\<close>, as the list of its own properties.\<close>

definition moveTypeEffects :: "(string \<times> ShaderPreset) list" where
  "moveTypeEffects =
     [(''normal'', rgbShift),
      (''fire'', duotone),
      (''water'', sinewave),
      (''electric'', rgbGlitch),
      (''grass'', hueShift),
      (''ice'', shine),
      (''fighting'', spring),
      (''poison'', slitScanTransition),
      (''ground'', halftone),
      (''flying'', warpTransition),
      (''psychic'', rainbow),
      (''bug'', pixelate),
      (''rock'', tritone),
      (''ghost'', glitch),
      (''dragon'', rgbShift),
      (''dark'', uvGradient),
      (''steel'', focusTransition),
      (''fairy'', pixelateTransition)]"

text \<open>
  \<^verbatim>\<open>moveTypeEffects\<close> is a plain object, so indexing it with a name that is not one of its
  own finds the property of that name that it inherits from \<^verbatim>\<open>Object.prototype\<close>. These
  are the names of the properties of \<^verbatim>\<open>Object.prototype\<close> (ECMAScript, with the accessors
  of its annex for browsers). Each of them is a function, but \<^verbatim>\<open>__proto__\<close>, which is the
  prototype object: every one is truthy.
\<close>

definition Object_prototype_names :: "string list" where
  "Object_prototype_names =
     [''constructor'', ''hasOwnProperty'', ''isPrototypeOf'', ''propertyIsEnumerable'',
      ''toLocaleString'', ''toString'', ''valueOf'', ''__proto__'',
      ''__defineGetter__'', ''__defineSetter__'', ''__lookupGetter__'', ''__lookupSetter__'']"

text \<open>
  Line 449, \<^verbatim>\<open>moveTypeEffects[move.type] || "glitch"\<close>: the own property of the name
  \<^verbatim>\<open>move.type\<close> when there is one (a shader name); otherwise the inherited member of that
  name when there is one, which is truthy and so is kept; otherwise \<^verbatim>\<open>undefined\<close>, which
  \<^verbatim>\<open>||\<close> replaces by \<^verbatim>\<open>"glitch"\<close>.
\<close>

datatype effect = Shader ShaderPreset | Member string

definition effect_of :: "Move \<Rightarrow> effect" where
  "effect_of move =
     (case map_of moveTypeEffects (mtype move) of
        Some preset \<Rightarrow> Shader preset
      | None \<Rightarrow>
          if mtype move \<in> set Object_prototype_names then Member (mtype move)
          else Shader glitch)"

text \<open>
  One \<^verbatim>\<open>PokemonCard\<close> of the grid, which React identifies by its \<^verbatim>\<open>key\<close>, the id of the
  Pokemon: whether the component is mounted, its hook \<^verbatim>\<open>activeEffect\<close>, and the timers
  that it has set and that have not fired yet. Time is the clock of the event loop, in
  milliseconds; \<open>pending\<close> holds the times at which the callbacks
  \<^verbatim>\<open>() => setActiveEffect(null)\<close> are due, in the order in which they were set. A timer fires
  when the clock reaches the time it is due at. The file never calls \<^verbatim>\<open>clearTimeout\<close>, so
  a timer of a mounted card leaves \<open>pending\<close> only by firing.
\<close>

record Card =
  mounted :: bool
  activeEffect :: "ShaderPreset option"
  pending :: "nat list"
  clock :: nat




text \<open>
  The cards exist only while \<^verbatim>\<open>Component\<close> returns the grid: the loading screen of line 349
  and the error text of line 368 are returned instead of it. When the grid goes, every
  \<^verbatim>\<open>PokemonCard\<close> is unmounted and its state is discarded; the timers it has set still
  fire, but their \<^verbatim>\<open>setActiveEffect\<close> belongs to the discarded component and changes
  nothing that is shown, so they leave the model. When the grid comes back, the card is a
  new component with \<^verbatim>\<open>useState(null)\<close> and no timer.
\<close>

definition unmount :: "Card \<Rightarrow> Card" where
  "unmount c = c\<lparr>mounted := False, activeEffect := None, pending := []\<rparr>"

definition mount :: "Card \<Rightarrow> Card" where
  "mount c = c\<lparr>mounted := True, activeEffect := None, pending := []\<rparr>"

text \<open>
  The card with the key \<open>k\<close> after \<^verbatim>\<open>Component\<close> has rendered the state \<open>s\<close>: a card that
  is in the grid before and after keeps its state.
\<close>

definition card_in_grid :: "int \<Rightarrow> State \<Rightarrow> bool" where
  "card_in_grid k s = (k \<in> set (map pid (cards_shown (render s))))"

definition rerender :: "int \<Rightarrow> State \<Rightarrow> Card \<Rightarrow> Card" where
  "rerender k s c =
     (if card_in_grid k s then (if mounted c then c else mount c) else unmount c)"

text \<open>
  The image of the card (lines 520--531): the image with the shader \<^verbatim>\<open>activeEffect\<close> when
  there is one, and the static image component \<^verbatim>\<open>PokemonImage\<close> otherwise; nothing while
  the card is not mounted.
\<close>

datatype ImageView = NotRendered | VFXImg string ShaderPreset | PokemonImage Pokemon

definition card_image :: "Pokemon \<Rightarrow> Card \<Rightarrow> ImageView" where
  "card_image pokemon c =
     (if \<not> mounted c then NotRendered
      else case activeEffect c of
             Some preset \<Rightarrow> VFXImg (sprite pokemon) preset
           | None \<Rightarrow> PokemonImage pokemon)"

section \<open>The page and one of its cards\<close>

text \<open>
  The first half of \<^const>\<open>on_intersect\<close>: the sentinel intersects and, when that raises the
  page, the effect starts \<^verbatim>\<open>fetchPokemon\<close>, which runs up to its first \<^verbatim>\<open>await\<close>.
\<close>

definition on_intersect_start :: "State \<Rightarrow> State" where
  "on_intersect_start s =
     (let s' = intersect s in if page s' \<noteq> page s then fetchPokemon_start s' else s')"






section \<open>Sample data\<close>

definition sample_pokemon :: "int \<Rightarrow> string \<Rightarrow> Pokemon" where
  "sample_pokemon i n =
     \<lparr>pid = i, pname = n, types = [], moves = [], sprite = n @ ''.png'',
      shinySprite = n @ ''-shiny.png''\<rparr>"


definition sample_ref :: "string \<Rightarrow> TypeRef" where
  "sample_ref n = \<lparr>tname = n, turl = ''type/'' @ n\<rparr>"

text \<open>An API whose list resource answers with one item and whose other requests fail.\<close>

definition api_detail_fails :: Api where
  "api_detail_fails =
     \<lparr>list_resource = (\<lambda>limit offset. Some [\<lparr>sname = ''bulbasaur'', surl = ''pokemon/1''\<rparr>]),
      pokemon_resource = (\<lambda>url. None),
      move_resource = (\<lambda>url. None),
      type_resource = (\<lambda>url. None)\<rparr>"

text \<open>An API whose list resource answers with no item.\<close>

definition api_empty_page :: Api where
  "api_empty_page =
     \<lparr>list_resource = (\<lambda>limit offset. Some []),
      pokemon_resource = (\<lambda>url. None),
      move_resource = (\<lambda>url. None),
      type_resource = (\<lambda>url. None)\<rparr>"

text \<open>The type resource of the type water, which has no entry in its last two lists.\<close>

definition water_data :: TypeData where
  "water_data =
     \<lparr>data_name = ''water'',
      double_damage_from = [sample_ref ''electric'', sample_ref ''grass''],
      double_damage_to = [sample_ref ''fire'', sample_ref ''ground'', sample_ref ''rock''],
      half_damage_from = [sample_ref ''fire'', sample_ref ''water'', sample_ref ''ice'',
                          sample_ref ''steel''],
      half_damage_to = [sample_ref ''water'', sample_ref ''grass'', sample_ref ''dragon''],
      no_damage_from = [],
      no_damage_to = []\<rparr>"

definition api_types :: Api where
  "api_types =
     \<lparr>list_resource = (\<lambda>limit offset. Some []),
      pokemon_resource = (\<lambda>url. None),
      move_resource = (\<lambda>url. None),
      type_resource = (\<lambda>url. if url = ''type/water'' then Some water_data else None)\<rparr>"

text \<open>A state after the first page: one card, nothing outstanding.\<close>

definition one_card_state :: State where
  "one_card_state =
     \<lparr>pokemonData = [sample_pokemon 1 ''bulbasaur''], loading = False, error = None,
      selectedType = None, hasMore = True, page = 1\<rparr>"



section \<open>Properties of the merge\<close>

text \<open>
  The map built by \<^const>\<open>new_Map\<close> has distinct keys, and looking a key up in it finds the
  last entry of the array with that key.
\<close>

lemma foldl_update_distinct:
  "distinct (map fst m) \<Longrightarrow> distinct (map fst (foldl (\<lambda>m (k, v). AList.update k v m) m es))"
  by (induction es arbitrary: m) (auto simp: distinct_update split: prod.splits)

lemma foldl_update_map_of:
  "map_of (foldl (\<lambda>m (k, v). AList.update k v m) m es) = map_of m ++ map_of (rev es)"
proof (induction es arbitrary: m)
  case Nil
  show ?case by simp
next
  case (Cons e es)
  obtain k v where e: "e = (k, v)" by (cases e)
  have "map_of (foldl (\<lambda>m (k, v). AList.update k v m) m (e # es))
        = map_of (AList.update k v m) ++ map_of (rev es)"
    using Cons.IH [of "AList.update k v m"] by (simp add: e)
  also have "\<dots> = map_of m ++ map_of (rev (e # es))"
    by (simp add: e update_conv' map_add_upd_left fun_eq_iff map_add_def split: option.splits)
  finally show ?case .
qed

lemma distinct_new_Map: "distinct (map fst (new_Map es))"
  unfolding new_Map_def by (rule foldl_update_distinct) simp

lemma map_of_new_Map: "map_of (new_Map es) = map_of (rev es)"
  unfolding new_Map_def by (simp add: foldl_update_map_of)

lemma set_new_Map: "(k, v) \<in> set (new_Map es) \<longleftrightarrow> map_of (rev es) k = Some v"
  using map_of_eq_Some_iff [OF distinct_new_Map, of es k v] by (simp add: map_of_new_Map)

lemma entries_append: "entries (xs @ ys) = entries xs @ entries ys"
  by (simp add: entries_def)

lemma map_of_entries_Some: "map_of (rev (entries xs)) k = Some v \<Longrightarrow> pid v = k \<and> v \<in> set xs"
  by (auto simp: entries_def dest!: map_of_SomeD)

lemma new_Map_keys: "(k, v) \<in> set (new_Map (entries xs)) \<Longrightarrow> pid v = k"
  by (simp add: set_new_Map map_of_entries_Some)

lemma map_fst_new_Map: "map fst (new_Map (entries xs)) = map pid (values_of (new_Map (entries xs)))"
  by (auto simp: values_of_def dest: new_Map_keys)

text \<open>
  Sorting by a key keeps the keys distinct.
\<close>

lemma distinct_map_insort_key:
  "distinct (map f (insort_key f x xs)) = (f x \<notin> f ` set xs \<and> distinct (map f xs))"
  by (induction xs) (auto simp: set_insort_key)

lemma distinct_map_sort_key: "distinct (map f (sort_key f xs)) = distinct (map f xs)"
proof (induction xs)
  case Nil
  show ?case by simp
next
  case (Cons x xs)
  have "set (sort_key f xs) = set xs" by simp
  with Cons show ?case by (simp add: distinct_map_insort_key)
qed

text \<open>
  The merged list: its ids are distinct and ascending, and its members are the entities
  that the lookup by id finds in \<open>existing @ incoming\<close>, read from the right.
\<close>

lemma merge_unfold: "merge a b = sort_key pid (values_of (new_Map (entries (a @ b))))"
  by (simp add: merge_def)

lemma merge_distinct: "distinct (map pid (merge a b))"
  using distinct_new_Map [of "entries (a @ b)"]
  by (simp add: merge_unfold distinct_map_sort_key map_fst_new_Map [symmetric])

lemma merge_sorted: "sorted (map pid (merge a b))"
  by (simp add: merge_unfold)

lemma merge_set: "v \<in> set (merge a b) \<longleftrightarrow> map_of (rev (entries (a @ b))) (pid v) = Some v"
proof
  assume "v \<in> set (merge a b)"
  then obtain k where "(k, v) \<in> set (new_Map (entries (a @ b)))"
    by (auto simp: merge_unfold values_of_def)
  then show "map_of (rev (entries (a @ b))) (pid v) = Some v"
    using new_Map_keys set_new_Map by fastforce
next
  assume "map_of (rev (entries (a @ b))) (pid v) = Some v"
  then have "(pid v, v) \<in> set (new_Map (entries (a @ b)))" by (simp add: set_new_Map)
  then show "v \<in> set (merge a b)" by (force simp: merge_unfold values_of_def)
qed

lemma map_of_rev_distinct:
  "distinct (map fst xs) \<Longrightarrow> map_of (rev xs) = map_of xs"
  by (rule map_of_inject_set [THEN iffD2]) (simp_all add: rev_map [symmetric])

lemma map_of_entries_merge:
  "map_of (rev (entries (merge a b))) = map_of (rev (entries (a @ b)))"
proof -
  have d: "distinct (map fst (entries (merge a b)))"
    using merge_distinct [of a b] by (simp add: entries_def comp_def)
  have "map_of (entries (merge a b)) k = map_of (rev (entries (a @ b))) k" for k
  proof (cases "map_of (rev (entries (a @ b))) k")
    case None
    have "map_of (entries (merge a b)) k = None"
    proof (rule ccontr)
      assume "map_of (entries (merge a b)) k \<noteq> None"
      then obtain v where "map_of (entries (merge a b)) k = Some v" by blast
      then have "(k, v) \<in> set (entries (merge a b))" by (rule map_of_SomeD)
      then have "v \<in> set (merge a b)" "pid v = k" by (auto simp: entries_def)
      with None show False by (simp add: merge_set)
    qed
    with None show ?thesis by simp
  next
    case (Some v)
    then have "pid v = k" by (simp add: map_of_entries_Some)
    with Some have "v \<in> set (merge a b)" by (simp add: merge_set)
    with \<open>pid v = k\<close> have "(k, v) \<in> set (entries (merge a b))" by (auto simp: entries_def)
    with d have "map_of (entries (merge a b)) k = Some v" by simp
    with Some show ?thesis by simp
  qed
  then have "map_of (entries (merge a b)) = map_of (rev (entries (a @ b)))" by (rule ext)
  with d show ?thesis by (simp add: map_of_rev_distinct)
qed

lemma merge_ids: "pid ` set (merge a b) = pid ` set a \<union> pid ` set b"
proof -
  have "pid ` set (merge a b) = fst ` set (new_Map (entries (a @ b)))"
    by (simp add: merge_unfold values_of_def image_image) (metis (no_types, lifting) image_cong new_Map_keys prod.collapse)
  also have "\<dots> = dom (map_of (new_Map (entries (a @ b))))" by (simp add: dom_map_of_conv_image_fst)
  also have "\<dots> = pid ` set a \<union> pid ` set b"
    by (auto simp: map_of_new_Map dom_map_of_conv_image_fst entries_def image_Un image_image)
  finally show ?thesis .
qed

lemma filter_key_distinct:
  "distinct (map f xs) \<Longrightarrow> x \<in> set xs \<Longrightarrow> filter (\<lambda>y. f y = f x) xs = [x]"
proof (induction xs)
  case Nil
  then show ?case by simp
next
  case (Cons a xs)
  show ?case
  proof (cases "a = x")
    case True
    with Cons.prems have "filter (\<lambda>y. f y = f x) xs = []"
      by (auto simp: filter_empty_conv image_iff)
    with True show ?thesis by simp
  next
    case False
    with Cons.prems have "x \<in> set xs" "f a \<noteq> f x" by auto
    with Cons show ?thesis by simp
  qed
qed

lemma merge_filter_last:
  assumes "k \<in> pid ` set incoming"
  shows "filter (\<lambda>x. pid x = k) (merge existing incoming) = [last (filter (\<lambda>x. pid x = k) incoming)]"
proof -
  let ?l = "last (filter (\<lambda>x. pid x = k) incoming)"
  from assms have ne: "filter (\<lambda>x. pid x = k) incoming \<noteq> []" by (auto simp: filter_empty_conv)
  have inc: "map_of (rev (entries incoming)) k = Some ?l"
    using ne
  proof (induction incoming rule: rev_induct)
    case Nil then show ?case by simp
  next
    case (snoc x xs)
    then show ?case by (auto simp: entries_def)
  qed
  then have "map_of (rev (entries (existing @ incoming))) k = Some ?l"
    by (simp add: entries_def)
  moreover have pl: "pid ?l = k" using inc by (simp add: map_of_entries_Some)
  ultimately have mem: "?l \<in> set (merge existing incoming)" by (simp add: merge_set)
  have "filter (\<lambda>x. pid x = pid ?l) (merge existing incoming) = [?l]"
    using merge_distinct mem by (rule filter_key_distinct)
  with pl show ?thesis by simp
qed

lemma merge_sample:
 "merge [sample_pokemon 1 ''bulbasaur'', sample_pokemon 2 ''ivysaur'']
             [sample_pokemon 2 ''ivysaur-new'', sample_pokemon 3 ''venusaur'']
       = [sample_pokemon 1 ''bulbasaur'', sample_pokemon 2 ''ivysaur-new'',
          sample_pokemon 3 ''venusaur'']"
  by (simp add: merge_def entries_def new_Map_def values_of_def sample_pokemon_def)

text \<open>
  \<^bold>\<open>C1\<close>. For every existing and every incoming sequence, no two entries of the merged
  sequence share an id; the ids of the result are those of the two inputs; and an entry of
  the result whose id occurs in the incoming sequence is an incoming entity: on a collision
  the incoming entity has replaced the existing one, and there is no second entry.
\<close>

theorem merge_no_duplicate_ids:
  "distinct (map pid (merge existing incoming)) \<and>
   pid ` set (merge existing incoming) = pid ` set existing \<union> pid ` set incoming \<and>
   (\<forall>x \<in> set (merge existing incoming). pid x \<in> pid ` set incoming \<longrightarrow> x \<in> set incoming)"
proof (intro conjI ballI impI)
  show "distinct (map pid (merge existing incoming))" by (rule merge_distinct)
  show "pid ` set (merge existing incoming) = pid ` set existing \<union> pid ` set incoming"
    by (rule merge_ids)
next
  fix x
  assume x: "x \<in> set (merge existing incoming)" and "pid x \<in> pid ` set incoming"
  then have "filter (\<lambda>y. pid y = pid x) (merge existing incoming)
             = [last (filter (\<lambda>y. pid y = pid x) incoming)]"
    and ne: "filter (\<lambda>y. pid y = pid x) incoming \<noteq> []"
    by (auto simp: merge_filter_last filter_empty_conv)
  moreover have "filter (\<lambda>y. pid y = pid x) (merge existing incoming) = [x]"
    using merge_distinct x by (rule filter_key_distinct)
  ultimately have "x = last (filter (\<lambda>y. pid y = pid x) incoming)" by simp
  with ne have "x \<in> set (filter (\<lambda>y. pid y = pid x) incoming)" by (metis last_in_set)
  then show "x \<in> set incoming" by simp
qed

text \<open>
  An instance: the incoming entity with id 2 replaces the stored one.
\<close>

theorem merge_no_duplicate_ids_witness:
  "sample_pokemon 2 ''ivysaur-new''
     \<in> set (merge [sample_pokemon 1 ''bulbasaur'', sample_pokemon 2 ''ivysaur'']
                   [sample_pokemon 2 ''ivysaur-new'', sample_pokemon 3 ''venusaur'']) \<and>
   pid (sample_pokemon 2 ''ivysaur-new'')
     \<in> pid ` set [sample_pokemon 2 ''ivysaur-new'', sample_pokemon 3 ''venusaur''] \<and>
   sample_pokemon 2 ''ivysaur-new''
     \<in> set [sample_pokemon 2 ''ivysaur-new'', sample_pokemon 3 ''venusaur'']"
  using merge_no_duplicate_ids [of "[sample_pokemon 1 ''bulbasaur'', sample_pokemon 2 ''ivysaur'']"
      "[sample_pokemon 2 ''ivysaur-new'', sample_pokemon 3 ''venusaur'']"]
  by (simp add: merge_def entries_def new_Map_def values_of_def sample_pokemon_def)

text \<open>
  \<^bold>\<open>C3\<close>. Whatever the order of the entities in the two inputs, the merged sequence is
  sorted ascending by id; a page with the ids 4, 1, 25, 7 merged into the empty store gives
  the order 1, 4, 7, 25.
\<close>

theorem merge_sorted_by_id:
  "sorted (map pid (merge existing incoming)) \<and>
   (map pid incoming = [4, 1, 25, 7] \<longrightarrow> map pid (merge [] incoming) = [1, 4, 7, 25])"
proof (intro conjI impI)
  show "sorted (map pid (merge existing incoming))" by (rule merge_sorted)
next
  assume "map pid incoming = [4, 1, 25, 7]"
  then obtain a b c d where "incoming = [a, b, c, d]" "pid a = 4" "pid b = 1" "pid c = 25" "pid d = 7"
    by (auto simp: map_eq_Cons_conv)
  then show "map pid (merge [] incoming) = [1, 4, 7, 25]"
    by (simp add: merge_def entries_def new_Map_def values_of_def)
qed

text \<open>
  An instance: a page of four entities with the ids 4, 1, 25, 7.
\<close>

theorem merge_sorted_by_id_witness:
  "map pid [sample_pokemon 4 ''charmander'', sample_pokemon 1 ''bulbasaur'',
            sample_pokemon 25 ''pikachu'', sample_pokemon 7 ''squirtle''] = [4, 1, 25, 7] \<and>
   map pid (merge [] [sample_pokemon 4 ''charmander'', sample_pokemon 1 ''bulbasaur'',
            sample_pokemon 25 ''pikachu'', sample_pokemon 7 ''squirtle'']) = [1, 4, 7, 25]"
  using merge_sorted_by_id [of "[]" "[sample_pokemon 4 ''charmander'', sample_pokemon 1 ''bulbasaur'',
            sample_pokemon 25 ''pikachu'', sample_pokemon 7 ''squirtle'']"]
  by (simp add: sample_pokemon_def)

text \<open>
  \<^bold>\<open>C4\<close>. The merge is idempotent: merging the incoming sequence into the result of
  merging it gives the result of merging it once.
\<close>

theorem merge_idempotent: "merge (merge existing incoming) incoming = merge existing incoming"
proof (rule map_sorted_distinct_set_unique [where f = pid])
  let ?once = "merge existing incoming" and ?twice = "merge (merge existing incoming) incoming"
  have "map_of (rev (entries (?once @ incoming)))
          = map_of (rev (entries ?once)) ++ map_of (rev (entries incoming))"
    by (simp add: entries_append)
  also have "\<dots> = map_of (rev (entries (existing @ incoming))) ++ map_of (rev (entries incoming))"
    by (simp only: map_of_entries_merge)
  also have "\<dots> = map_of (rev (entries (existing @ incoming)))"
    by (simp add: entries_append fun_eq_iff map_add_def split: option.splits)
  finally have m: "map_of (rev (entries (?once @ incoming))) = map_of (rev (entries (existing @ incoming)))" .
  show s: "set ?twice = set ?once"
    by (auto simp: merge_set [of _ "?once" incoming] merge_set [of _ existing incoming] m)
  show "inj_on pid (set ?twice \<union> set ?once)"
    using merge_distinct [of existing incoming] by (simp add: s distinct_map)
  show "sorted (map pid ?twice)" "sorted (map pid ?once)" by (rule merge_sorted)+
  show "distinct (map pid ?twice)" "distinct (map pid ?once)" by (rule merge_distinct)+
qed

text \<open>
  An instance, evaluated.
\<close>

theorem merge_idempotent_witness:
  "merge (merge [sample_pokemon 1 ''bulbasaur'', sample_pokemon 2 ''ivysaur'']
                [sample_pokemon 2 ''ivysaur-new'', sample_pokemon 3 ''venusaur''])
         [sample_pokemon 2 ''ivysaur-new'', sample_pokemon 3 ''venusaur'']
     = [sample_pokemon 1 ''bulbasaur'', sample_pokemon 2 ''ivysaur-new'',
        sample_pokemon 3 ''venusaur'']"
  using merge_idempotent [of "[sample_pokemon 1 ''bulbasaur'', sample_pokemon 2 ''ivysaur'']"
      "[sample_pokemon 2 ''ivysaur-new'', sample_pokemon 3 ''venusaur'']"]
  by (simp add: merge_sample)

text \<open>
  \<^bold>\<open>C10\<close>. When the incoming sequence itself holds several entities with one id, the
  merged sequence has exactly one entry with that id, and it is the last of them in the
  incoming sequence.
\<close>

theorem merge_last_occurrence_wins:
  "\<forall>k \<in> pid ` set incoming.
     filter (\<lambda>x. pid x = k) (merge existing incoming)
       = [last (filter (\<lambda>x. pid x = k) incoming)]"
  by (simp add: merge_filter_last)

text \<open>
  An instance: two incoming entities with the id 7, and a stored one.
\<close>

theorem merge_last_occurrence_wins_witness:
  "7 \<in> pid ` set [sample_pokemon 7 ''first'', sample_pokemon 7 ''second''] \<and>
   filter (\<lambda>x. pid x = 7)
     (merge [sample_pokemon 7 ''old''] [sample_pokemon 7 ''first'', sample_pokemon 7 ''second''])
     = [sample_pokemon 7 ''second'']"
  using merge_last_occurrence_wins [of "[sample_pokemon 7 ''first'', sample_pokemon 7 ''second'']"
      "[sample_pokemon 7 ''old'']"]
  by (simp add: sample_pokemon_def)

section \<open>Properties of the page fetch\<close>

text \<open>
  \<^const>\<open>Promise_all\<close> fails exactly when one of the promises does, so resolving a page fails
  exactly when one request does.
\<close>

lemma Promise_all_None: "Promise_all (map f xs) = None \<longleftrightarrow> (\<exists>x \<in> set xs. f x = None)"
  unfolding Promise_all_def by (induction xs) (auto split: option.splits)

lemma resolve_move_None: "resolve_move api move = None \<longleftrightarrow> move_resource api (move_url move) = None"
  by (simp add: resolve_move_def split: option.splits)

lemma resolve_pokemon_None:
  "resolve_pokemon api pokemon = None \<longleftrightarrow>
     (case pokemon_resource api (surl pokemon) of
        None \<Rightarrow> True
      | Some details \<Rightarrow>
          \<exists>move \<in> set (take 3 (details_moves details)). move_resource api (move_url move) = None)"
proof (cases "pokemon_resource api (surl pokemon)")
  case None
  then show ?thesis by (simp add: resolve_pokemon_def)
next
  case (Some details)
  have "resolve_pokemon api pokemon = None \<longleftrightarrow>
        Promise_all (map (resolve_move api) (take 3 (details_moves details))) = None"
    using Some by (simp add: resolve_pokemon_def split: option.splits)
  with Some show ?thesis by (simp add: Promise_all_None resolve_move_None)
qed

lemma fetchPokemon_fails:
  assumes "sub_request_fails api (page s)"
  shows "fetchPokemon api s = s\<lparr>loading := False, error := Some fetch_error_message\<rparr>"
proof (cases "list_resource api 20 ((page s - 1) * 20)")
  case None
  then show ?thesis
    by (simp add: fetchPokemon_def fetchPokemon_start_def fetchPokemon_finish_def
        fetchPokemon_catch_def)
next
  case (Some results)
  with assms have "\<exists>pokemon \<in> set results. resolve_pokemon api pokemon = None"
    by (simp add: sub_request_fails_def resolve_pokemon_None)
  then have "Promise_all (map (resolve_pokemon api) results) = None" "results \<noteq> []"
    by (auto simp: Promise_all_None)
  with Some show ?thesis
    by (simp add: fetchPokemon_def fetchPokemon_start_def fetchPokemon_finish_def
        fetchPokemon_catch_def)
qed

text \<open>
  When every request of a page with at least one item succeeds, the page is merged into
  the store and \<^verbatim>\<open>loading\<close> is cleared.
\<close>

lemma fetchPokemon_success:
  assumes "list_resource api 20 ((page s - 1) * 20) = Some results" "results \<noteq> []"
    and "Promise_all (map (resolve_pokemon api) results) = Some pokemonDetails"
  shows "fetchPokemon api s
           = s\<lparr>loading := False, pokemonData := merge (pokemonData s) pokemonDetails\<rparr>"
  using assms
  by (simp add: fetchPokemon_def fetchPokemon_start_def fetchPokemon_finish_def)

text \<open>
  \<^bold>\<open>C2\<close>. When a request of a page fetch fails (the list, the details of an item, or one
  of its moves), the store is what it was before the fetch, the error state holds the
  message, and the screen shows that message and no card: the failure is one error for the
  whole page.
\<close>

theorem fetchPokemon_failure:
  assumes "sub_request_fails api (page s)"
  shows "pokemonData (fetchPokemon api s) = pokemonData s \<and>
         error (fetchPokemon api s) = Some fetch_error_message \<and>
         render (fetchPokemon api s) = ErrorScreen fetch_error_message \<and>
         cards_shown (render (fetchPokemon api s)) = []"
  using assms by (simp add: fetchPokemon_fails render_def fetch_error_message_def cards_shown_def)

text \<open>
  An instance: the list has one item and the request of its details fails.
\<close>

theorem fetchPokemon_failure_witness:
  "sub_request_fails api_detail_fails (page one_card_state) \<and>
   pokemonData (fetchPokemon api_detail_fails one_card_state) = [sample_pokemon 1 ''bulbasaur''] \<and>
   error (fetchPokemon api_detail_fails one_card_state) = Some fetch_error_message"
proof -
  have h: "sub_request_fails api_detail_fails (page one_card_state)"
    by (simp add: sub_request_fails_def api_detail_fails_def one_card_state_def)
  show ?thesis using h fetchPokemon_failure [OF h] by (simp add: one_card_state_def)
qed

text \<open>
  A page whose list has no item clears \<^verbatim>\<open>hasMore\<close> and changes nothing else but
  \<^verbatim>\<open>loading\<close>; and with \<^verbatim>\<open>hasMore\<close> cleared an intersection of the sentinel changes
  nothing.
\<close>

lemma fetchPokemon_empty:
  assumes "list_resource api 20 ((page s - 1) * 20) = Some []"
  shows "fetchPokemon api s = s\<lparr>loading := True, hasMore := False\<rparr>"
  using assms
  by (simp add: fetchPokemon_def fetchPokemon_start_def fetchPokemon_finish_def)

lemma intersect_no_more: "\<not> hasMore s \<Longrightarrow> on_intersect api s = s"
  by (simp add: on_intersect_def intersect_def)

text \<open>
  \<^bold>\<open>C8\<close>. After a page fetch whose list has no item, \<^verbatim>\<open>hasMore\<close> is false, the store,
  the error state and the page are what they were, and an intersection of the sentinel
  leaves the state as it is: the page is not incremented, so no further fetch runs.
\<close>

theorem fetchPokemon_empty_page:
  assumes "list_resource api 20 ((page s - 1) * 20) = Some []"
  shows "hasMore (fetchPokemon api s) = False \<and>
         pokemonData (fetchPokemon api s) = pokemonData s \<and>
         error (fetchPokemon api s) = error s \<and>
         page (fetchPokemon api s) = page s \<and>
         intersect (fetchPokemon api s) = fetchPokemon api s \<and>
         on_intersect api' (fetchPokemon api s) = fetchPokemon api s"
  using assms by (simp add: fetchPokemon_empty intersect_def on_intersect_def)

text \<open>
  An instance: a store of one card and no error, and an empty page.
\<close>

theorem fetchPokemon_empty_page_witness:
  "list_resource api_empty_page 20 ((page one_card_state - 1) * 20) = Some [] \<and>
   hasMore (fetchPokemon api_empty_page one_card_state) = False \<and>
   pokemonData (fetchPokemon api_empty_page one_card_state) = [sample_pokemon 1 ''bulbasaur''] \<and>
   error (fetchPokemon api_empty_page one_card_state) = None \<and>
   on_intersect api_empty_page (fetchPokemon api_empty_page one_card_state)
     = fetchPokemon api_empty_page one_card_state"
proof -
  have h: "list_resource api_empty_page 20 ((page one_card_state - 1) * 20) = Some []"
    by (simp add: api_empty_page_def)
  show ?thesis using h fetchPokemon_empty_page [OF h, of api_empty_page]
    by (simp add: one_card_state_def)
qed

text \<open>
  \<^bold>\<open>C9\<close>. The code at the failing input. While the fetch of a further page is outstanding
  the store holds the card, but the screen is the loading screen of line 349 and shows no
  card; and when that fetch ends with an empty list, the loading indicator is still shown,
  since the \<^verbatim>\<open>return\<close> of line 237 leaves \<^verbatim>\<open>loading\<close> set.
\<close>

theorem loading_screen_hides_cards:
  "pokemonData (fetchPokemon_start one_card_state) = [sample_pokemon 1 ''bulbasaur''] \<and>
   render (fetchPokemon_start one_card_state) = LoadingScreen \<and>
   cards_shown (render (fetchPokemon_start one_card_state)) = [] \<and>
   loading_indicator_shown (render (fetchPokemon api_empty_page one_card_state)) = True"
  by (simp add: fetchPokemon_def fetchPokemon_start_def fetchPokemon_finish_def render_def
      cards_shown_def loading_indicator_shown_def one_card_state_def api_empty_page_def)

section \<open>Properties of the type details\<close>

lemma join_empty_iff: "join '', '' xs = [] \<longleftrightarrow> xs = [] \<or> xs = [[]]"
  by (induction "'', ''" xs rule: join.induct) auto

lemma or_else_join: "or_else (join '', '' xs) ''None'' = shown xs"
  by (simp add: or_else_def shown_def join_empty_iff)

text \<open>
  \<^bold>\<open>C5\<close>, as stated, fails. The details of the type water are fetched with all six
  lists, the last two of them empty, and the modal has four sections: none for
  \<^verbatim>\<open>noDamageFrom\<close> or \<^verbatim>\<open>noDamageTo\<close>, and no text "None".
\<close>

theorem TypeModal_counterexample:
  "fetchTypeDetails api_types ''type/water''
     = Some \<lparr>type_name = ''water'',
             damageRelations =
               \<lparr>doubleDamageFrom = [''electric'', ''grass''],
                doubleDamageTo = [''fire'', ''ground'', ''rock''],
                halfDamageFrom = [''fire'', ''water'', ''ice'', ''steel''],
                halfDamageTo = [''water'', ''grass'', ''dragon''],
                noDamageFrom = [],
                noDamageTo = []\<rparr>\<rparr> \<and>
   TypeModal (selectedType (handleTypeClick api_types ''type/water'' initial_state))
     = Some \<lparr>heading = ''water'',
             sections =
               [(''Weaknesses:'', ''electric, grass''),
                (''Strengths:'', ''fire, ground, rock''),
                (''Resistances:'', ''fire, water, ice, steel''),
                (''Not very effective against:'', ''water, grass, dragon'')],
             button = ''Close''\<rparr>"
  by (simp add: handleTypeClick_def fetchTypeDetails_def api_types_def water_data_def
      sample_ref_def TypeModal_def or_else_def initial_state_def)

text \<open>
  \<^bold>\<open>C5\<close>, amended. For every type whose details are fetched, the click stores the
  details, which hold the names of all six lists, and the modal shows four of the lists:
  \<^verbatim>\<open>doubleDamageFrom\<close>, \<^verbatim>\<open>doubleDamageTo\<close>, \<^verbatim>\<open>halfDamageFrom\<close> and \<^verbatim>\<open>halfDamageTo\<close>, each as
  its names joined with a comma and a space, or as "None" when the list is empty (or is one
  empty name).
\<close>

theorem TypeModal_four_lists:
  assumes "type_resource api url = Some data"
  shows "selectedType (handleTypeClick api url s) = fetchTypeDetails api url \<and>
         (\<exists>t. fetchTypeDetails api url = Some t \<and>
           doubleDamageFrom (damageRelations t) = map tname (double_damage_from data) \<and>
           doubleDamageTo (damageRelations t) = map tname (double_damage_to data) \<and>
           halfDamageFrom (damageRelations t) = map tname (half_damage_from data) \<and>
           halfDamageTo (damageRelations t) = map tname (half_damage_to data) \<and>
           noDamageFrom (damageRelations t) = map tname (no_damage_from data) \<and>
           noDamageTo (damageRelations t) = map tname (no_damage_to data) \<and>
           map_option sections (TypeModal (Some t))
             = Some [(''Weaknesses:'', shown (doubleDamageFrom (damageRelations t))),
                     (''Strengths:'', shown (doubleDamageTo (damageRelations t))),
                     (''Resistances:'', shown (halfDamageFrom (damageRelations t))),
                     (''Not very effective against:'', shown (halfDamageTo (damageRelations t)))])"
  using assms
  by (simp add: handleTypeClick_def fetchTypeDetails_def TypeModal_def or_else_join)

text \<open>
  An instance: the type water.
\<close>

theorem TypeModal_four_lists_witness:
  "type_resource api_types ''type/water'' = Some water_data \<and>
   selectedType (handleTypeClick api_types ''type/water'' initial_state)
     = fetchTypeDetails api_types ''type/water''"
proof -
  have h: "type_resource api_types ''type/water'' = Some water_data"
    by (simp add: api_types_def)
  show ?thesis using h TypeModal_four_lists [OF h, of initial_state] by simp
qed

section \<open>Properties of the effect of a move\<close>



lemma effect_of_inherited:
  assumes "mtype move \<in> set Object_prototype_names"
  shows "effect_of move = Member (mtype move)"
proof -
  have "\<forall>n \<in> set Object_prototype_names. map_of moveTypeEffects n = None"
    by (simp add: Object_prototype_names_def moveTypeEffects_def)
  with assms show ?thesis by (simp add: effect_of_def)
qed









text \<open>
  The grid and the cards: a card is in the grid when \<^verbatim>\<open>Component\<close> is neither loading nor
  showing an error and the store has its key. The start of a page fetch takes every card
  off the screen, and a card that comes back shows the static image. \<^const>\<open>on_intersect\<close>
  is \<^const>\<open>on_intersect_start\<close> and then the rest of the fetch.
\<close>

lemma card_in_grid_iff:
  "card_in_grid k s \<longleftrightarrow>
     \<not> loading s \<and> (case error s of Some e \<Rightarrow> e = [] | None \<Rightarrow> True) \<and>
     k \<in> set (map pid (pokemonData s))"
  by (simp add: card_in_grid_def render_def cards_shown_def split: option.splits)

lemma fetch_start_unmounts: "\<not> card_in_grid k (fetchPokemon_start s)"
  by (simp add: card_in_grid_iff fetchPokemon_start_def)

lemma rerender_unmounts:
  "\<not> card_in_grid k s \<Longrightarrow> card_image pokemon (rerender k s c) = NotRendered"
  by (simp add: rerender_def unmount_def card_image_def)

lemma rerender_mounts:
  "card_in_grid k s \<Longrightarrow> \<not> mounted c \<Longrightarrow>
     card_image pokemon (rerender k s c) = PokemonImage pokemon"
  by (simp add: rerender_def mount_def card_image_def)

lemma on_intersect_split:
  "on_intersect api s =
     (if page (intersect s) \<noteq> page s then fetchPokemon_finish api (on_intersect_start s)
      else on_intersect_start s)"
  by (simp add: on_intersect_def on_intersect_start_def fetchPokemon_def Let_def)













end
